theory Spec2Isabelle
  imports Main "HOL-Library.Word"
begin

section \<open>Python values and exceptions\<close>

text \<open>
  The values that flow through \<^verbatim>\<open>wrapper.py\<close> are what \<^verbatim>\<open>json.loads\<close> and the
  spreadsheet service hand back: \<^verbatim>\<open>None\<close>, booleans, unbounded integers, floats,
  strings, lists and dictionaries with string keys. A \<^verbatim>\<open>str\<close> is the list of the
  bytes of its UTF-8 encoding, a \<^verbatim>\<open>float\<close> is its IEEE 754 double bit pattern.
  A dictionary is an association list read with \<open>map_of\<close>.
\<close>

datatype pyval =
    PNone
  | PBool bool
  | PInt int
  | PFloat "64 word"
  | PStr string
  | PList "pyval list"
  | PDict "(string \<times> pyval) list"

text \<open>
  Exceptions are values. \<open>KeyError\<close> carries the missing key, \<open>AttributeError\<close> the
  attribute name, \<open>ValueError\<close> its message. \<open>KeyNotFoundError\<close> and
  \<open>InvalidOperationError\<close> are the two exception classes of \<^verbatim>\<open>base.py\<close>.
  \<open>ServiceError\<close> stands for whatever an external collaborator raises.
  \<open>UnsupportedTypeError\<close> is the error the design document names for a column type
  the decoder cannot interpret; the package defines no such class and nothing below
  raises it. All of them are instances of \<^verbatim>\<open>Exception\<close>; \<^verbatim>\<open>KeyboardInterrupt\<close> and \<^verbatim>\<open>SystemExit\<close>,
  which \<^verbatim>\<open>except Exception\<close> lets through, are outside the model.
\<close>

datatype error =
    ValueError string
  | KeyError pyval
  | IndexError
  | TypeError
  | AttributeError string
  | KeyNotFoundError
  | InvalidOperationError
  | ServiceError string
  | UnsupportedTypeError string

definition and_then :: "error + 'a \<Rightarrow> ('a \<Rightarrow> error + 'b) \<Rightarrow> error + 'b" where
  "and_then m f = (case m of Inl e \<Rightarrow> Inl e | Inr x \<Rightarrow> f x)"

text \<open>Whether an outcome is the raising of an \<open>UnsupportedTypeError\<close>, whatever its
  message.\<close>

fun raises_UnsupportedTypeError :: "error + 'a \<Rightarrow> bool" where
  "raises_UnsupportedTypeError (Inl (UnsupportedTypeError m)) = True"
| "raises_UnsupportedTypeError _ = False"

subsection \<open>Truth value, subscripting, iteration\<close>

text \<open>\<^verbatim>\<open>not x\<close> is \<open>\<not> truthy x\<close>: \<^verbatim>\<open>None\<close>, \<^verbatim>\<open>False\<close>, zero and the empty
  string, list and dictionary are false.\<close>

fun truthy :: "pyval \<Rightarrow> bool" where
  "truthy PNone = False"
| "truthy (PBool b) = b"
| "truthy (PInt i) = (i \<noteq> 0)"
| "truthy (PFloat w) = (w \<noteq> 0 \<and> w \<noteq> 0x8000000000000000)"
| "truthy (PStr s) = (s \<noteq> [])"
| "truthy (PList xs) = (xs \<noteq> [])"
| "truthy (PDict kvs) = (kvs \<noteq> [])"

text \<open>\<^verbatim>\<open>x["k"]\<close> with a string key: only a dictionary can answer; a list or a
  string wants an integer index and the scalars are not subscriptable.\<close>

fun getitem_key :: "pyval \<Rightarrow> string \<Rightarrow> error + pyval" where
  "getitem_key (PDict kvs) k =
     (case map_of kvs k of None \<Rightarrow> Inl (KeyError (PStr k)) | Some v \<Rightarrow> Inr v)"
| "getitem_key _ k = Inl TypeError"

text \<open>A string is a sequence of code points: a lead byte with the continuation
  bytes (\<open>0x80\<close> to \<open>0xBF\<close>) that follow it.\<close>

definition is_continuation :: "char \<Rightarrow> bool" where
  "is_continuation c = (128 \<le> (of_char c :: nat) \<and> (of_char c :: nat) < 192)"

function codepoints :: "string \<Rightarrow> string list" where
  "codepoints [] = []"
| "codepoints (c # cs) =
     (c # takeWhile is_continuation cs) # codepoints (dropWhile is_continuation cs)"
  by pat_completeness auto
termination
  by (relation "measure length") (auto simp: length_dropWhile_le less_Suc_eq_le)

text \<open>\<^verbatim>\<open>x[i]\<close> with a non-negative integer index, as \<^verbatim>\<open>enumerate\<close> and the
  literal \<^verbatim>\<open>0\<close> give it. A dictionary of string keys has no integer key.\<close>

fun getitem_idx :: "pyval \<Rightarrow> nat \<Rightarrow> error + pyval" where
  "getitem_idx (PList xs) i = (if i < length xs then Inr (xs ! i) else Inl IndexError)"
| "getitem_idx (PStr s) i =
     (if i < length (codepoints s) then Inr (PStr (codepoints s ! i)) else Inl IndexError)"
| "getitem_idx (PDict kvs) i = Inl (KeyError (PInt (int i)))"
| "getitem_idx _ i = Inl TypeError"

text \<open>\<^verbatim>\<open>for x in v\<close>: a list gives its elements, a dictionary its keys in order of
  first insertion, a string its code points; nothing else is iterable.\<close>

fun py_iter :: "pyval \<Rightarrow> error + pyval list" where
  "py_iter (PList xs) = Inr xs"
| "py_iter (PDict kvs) = Inr (map PStr (rev (remdups (rev (map fst kvs)))))"
| "py_iter (PStr s) = Inr (map PStr (codepoints s))"
| "py_iter _ = Inl TypeError"

text \<open>\<^verbatim>\<open>x.get(k, default)\<close>: only a dictionary has the method.\<close>

fun dict_get :: "pyval \<Rightarrow> string \<Rightarrow> pyval \<Rightarrow> error + pyval" where
  "dict_get (PDict kvs) k d = Inr (case map_of kvs k of None \<Rightarrow> d | Some v \<Rightarrow> v)"
| "dict_get _ k d = Inl (AttributeError ''get'')"

subsection \<open>Dictionaries under construction\<close>

text \<open>
  A dictionary finds a key by hash and \<^verbatim>\<open>==\<close>, and numbers compare by value:
  \<^verbatim>\<open>True\<close>, \<^verbatim>\<open>1\<close> and \<^verbatim>\<open>1.0\<close> are one key, and so are \<^verbatim>\<open>False\<close>,
  \<^verbatim>\<open>0\<close>, \<^verbatim>\<open>0.0\<close> and \<^verbatim>\<open>-0.0\<close>. \<open>float_as_int\<close> is the integer a double
  equals, if any: with biased exponent \<open>e\<close> and fraction \<open>m\<close> the double is
  \<open>\<plusminus> significand * 2 ^ (shift - 1075)\<close>; exponent 2047 is an infinity or a NaN.
\<close>

definition float_as_int :: "64 word \<Rightarrow> int option" where
  "float_as_int w =
     (let e = uint (take_bit 11 (drop_bit 52 w));
          m = uint (take_bit 52 w);
          significand = (if e = 0 then m else 2 ^ 52 + m);
          shift = (if e = 0 then 1 else e);
          signed = (\<lambda>n. if bit w 63 then - n else n)
      in if e = 2047 then None
         else if 1075 \<le> shift then Some (signed (significand * 2 ^ nat (shift - 1075)))
         else if 2 ^ nat (1075 - shift) dvd significand
           then Some (signed (significand div 2 ^ nat (1075 - shift)))
         else None)"

text \<open>
  \<open>key_norm\<close> sends a key to the representative of its class under \<^verbatim>\<open>==\<close>: a
  boolean and a double with an integral value to that integer, every other key to
  itself. (Two doubles that equal no integer are equal exactly when their bits are;
  the one NaN object of \<^verbatim>\<open>json.loads\<close> is found again by identity.)
\<close>

fun key_norm :: "pyval \<Rightarrow> pyval" where
  "key_norm (PBool b) = PInt (if b then 1 else 0)"
| "key_norm (PFloat w) = (case float_as_int w of Some n \<Rightarrow> PInt n | None \<Rightarrow> PFloat w)"
| "key_norm k = k"

text \<open>\<^verbatim>\<open>d[k] = v\<close> on a dictionary, in insertion order: an entry with an equal key
  keeps its key and takes the new value; otherwise the entry is appended.\<close>

fun dict_setitem :: "(pyval \<times> pyval) list \<Rightarrow> pyval \<Rightarrow> pyval \<Rightarrow> (pyval \<times> pyval) list" where
  "dict_setitem [] k v = [(k, v)]"
| "dict_setitem ((k', v') # d) k v =
     (if key_norm k' = key_norm k then (k', v) # d else (k', v') # dict_setitem d k v)"

text \<open>\<^verbatim>\<open>d.get(k)\<close>: the value under a key equal to \<open>k\<close>, if there is one.\<close>

fun dict_lookup :: "(pyval \<times> pyval) list \<Rightarrow> pyval \<Rightarrow> pyval option" where
  "dict_lookup [] k = None"
| "dict_lookup ((k', v') # d) k = (if key_norm k' = key_norm k then Some v' else dict_lookup d k)"

text \<open>A list or a dictionary is not hashable and cannot be a key.\<close>

fun hashable :: "pyval \<Rightarrow> bool" where
  "hashable (PList xs) = False"
| "hashable (PDict kvs) = False"
| "hashable _ = True"

definition setitem :: "(pyval \<times> pyval) list \<Rightarrow> pyval \<Rightarrow> pyval \<Rightarrow> error + (pyval \<times> pyval) list" where
  "setitem d k v = (if hashable k then Inr (dict_setitem d k v) else Inl TypeError)"

subsection \<open>Builtins\<close>

text \<open>
  The library functions the decoder calls are parameters: \<^verbatim>\<open>json.loads\<close>,
  \<^verbatim>\<open>int\<close> and \<^verbatim>\<open>float\<close> on a string (each may raise), and \<^verbatim>\<open>str\<close> on a
  value that is not a string.
\<close>

record builtins =
  json_loads :: "string \<Rightarrow> error + pyval"
  int_of_str :: "string \<Rightarrow> error + int"
  float_of_str :: "string \<Rightarrow> error + 64 word"
  repr_of :: "pyval \<Rightarrow> string"

text \<open>\<^verbatim>\<open>str(x)\<close> and \<^verbatim>\<open>"{}".format(x)\<close>: a string is itself.\<close>

definition py_str :: "builtins \<Rightarrow> pyval \<Rightarrow> string" where
  "py_str B v = (case v of PStr s \<Rightarrow> s | _ \<Rightarrow> repr_of B v)"

section \<open>The cell decoder\<close>

text \<open>
  \<^verbatim>\<open>GoogleSheetWrapper._parse_cell(cell, col)\<close>. In the \<^verbatim>\<open>number\<close> branch a
  formatted value that is not a string raises \<open>TypeError\<close> whichever way the
  membership test goes: \<^verbatim>\<open>"." in f\<close> itself on a scalar, \<^verbatim>\<open>float(f)\<close> or
  \<^verbatim>\<open>int(f)\<close> on a list or a dictionary.
\<close>

definition parse_cell :: "builtins \<Rightarrow> pyval \<Rightarrow> pyval \<Rightarrow> error + pyval" where
  "parse_cell B cell col =
     (if \<not> truthy cell then Inr PNone
      else and_then (getitem_key cell ''v'') (\<lambda>v.
        if v = PNone then Inr PNone
        else and_then (getitem_key col ''type'') (\<lambda>typ.
          if typ = PStr ''boolean'' then getitem_key cell ''v''
          else if typ = PStr ''number'' then
            and_then (getitem_key cell ''f'') (\<lambda>f.
              case f of
                PStr s \<Rightarrow>
                  if CHR ''.'' \<in> set s then map_sum id PFloat (float_of_str B s)
                  else map_sum id PInt (int_of_str B s)
              | _ \<Rightarrow> Inl TypeError)
          else if typ = PStr ''string'' then getitem_key cell ''v''
          else if typ \<in> set [PStr ''date'', PStr ''datetime'', PStr ''timeofday'']
            then getitem_key cell ''f''
          else Inl (ValueError (''cell type '' @ py_str B typ @ '' is not supported'')))))"

section \<open>Converting a query response\<close>

text \<open>
  \<^verbatim>\<open>response.index("{")\<close> and \<^verbatim>\<open>response.rindex("}")\<close> raise \<open>ValueError\<close> when
  the character does not occur. Both characters are ASCII, so the slice between
  their byte offsets is the slice between their code point offsets.
\<close>

definition py_index :: "string \<Rightarrow> char \<Rightarrow> error + nat" where
  "py_index s c =
     (if c \<in> set s then Inr (length (takeWhile (\<lambda>x. x \<noteq> c) s))
      else Inl (ValueError ''substring not found''))"

definition py_rindex :: "string \<Rightarrow> char \<Rightarrow> error + nat" where
  "py_rindex s c =
     (if c \<in> set s then Inr (length s - 1 - length (takeWhile (\<lambda>x. x \<noteq> c) (rev s)))
      else Inl (ValueError ''substring not found''))"

text \<open>\<^verbatim>\<open>s[start:stop]\<close> for non-negative bounds; empty when \<open>stop \<le> start\<close>.\<close>

definition slice :: "string \<Rightarrow> nat \<Rightarrow> nat \<Rightarrow> string" where
  "slice s start stop = take (stop - start) (drop start s)"

text \<open>
  The inner loop of \<^verbatim>\<open>_convert_query_result\<close>, over \<^verbatim>\<open>enumerate(row["c"])\<close> from
  index \<open>cell_idx\<close> on, with the row built so far. A false cell is skipped by
  \<^verbatim>\<open>continue\<close>. In \<^verbatim>\<open>result_row[col["id"]] = self._parse_cell(cell, col)\<close> the
  right-hand side is evaluated before the subscript.
\<close>

fun convert_cells ::
  "builtins \<Rightarrow> pyval \<Rightarrow> pyval list \<Rightarrow> nat \<Rightarrow> (pyval \<times> pyval) list \<Rightarrow> error + (pyval \<times> pyval) list"
where
  "convert_cells B cols [] cell_idx result_row = Inr result_row"
| "convert_cells B cols (cell # cells) cell_idx result_row =
     (if \<not> truthy cell then convert_cells B cols cells (Suc cell_idx) result_row
      else and_then (getitem_idx cols cell_idx) (\<lambda>col.
        and_then (parse_cell B cell col) (\<lambda>v.
        and_then (getitem_key col ''id'') (\<lambda>k.
        and_then (setitem result_row k v) (\<lambda>result_row'.
          convert_cells B cols cells (Suc cell_idx) result_row')))))"

text \<open>The outer loop: one result row per row, in order; the first row that raises
  ends the conversion.\<close>

fun convert_rows ::
  "builtins \<Rightarrow> pyval \<Rightarrow> pyval list \<Rightarrow> error + (pyval \<times> pyval) list list"
where
  "convert_rows B cols [] = Inr []"
| "convert_rows B cols (row # rows) =
     and_then (getitem_key row ''c'') (\<lambda>c.
     and_then (py_iter c) (\<lambda>cells.
     and_then (convert_cells B cols cells 0 []) (\<lambda>result_row.
     and_then (convert_rows B cols rows) (\<lambda>results.
       Inr (result_row # results)))))"

text \<open>\<^verbatim>\<open>GoogleSheetWrapper._convert_query_result(response)\<close>.\<close>

definition convert_query_result ::
  "builtins \<Rightarrow> string \<Rightarrow> error + (pyval \<times> pyval) list list"
where
  "convert_query_result B response =
     and_then (py_index response (CHR ''{'')) (\<lambda>start.
     and_then (py_rindex response (CHR ''}'')) (\<lambda>end.
     and_then (json_loads B (slice response start (end + 1))) (\<lambda>resp.
     and_then (getitem_key resp ''table'') (\<lambda>table.
     and_then (getitem_key table ''cols'') (\<lambda>cols.
     and_then (getitem_key resp ''table'') (\<lambda>table'.
     and_then (getitem_key table' ''rows'') (\<lambda>rows.
     and_then (py_iter rows) (\<lambda>rs.
       convert_rows B cols rs))))))))"

section \<open>The spreadsheet service facade\<close>

text \<open>
  The Google API client is external. A call \<^verbatim>\<open>self._svc...method(**kwargs).execute()\<close>
  is a call of the service with the method's name and its keyword arguments; it acts
  on the remote world \<open>'w\<close> and returns the decoded response or raises.
  A \<^verbatim>\<open>GoogleSheetWrapper\<close> holds that service (and the credentials, which only
  \<^verbatim>\<open>query\<close> reads).
\<close>

type_synonym 'w service = "string \<Rightarrow> (string \<times> pyval) list \<Rightarrow> 'w \<Rightarrow> (error + pyval) \<times> 'w"

record 'w GoogleSheetWrapper =
  svc :: "'w service"

text \<open>
  \<^verbatim>\<open>A1Range\<close> and the result classes come from the module \<^verbatim>\<open>.base\<close> of the package,
  whose source is not at hand. The range type is the parameter \<open>'r\<close>, and the two
  operations the wrapper uses are parameters: \<^verbatim>\<open>A1Range.from_notation\<close> (which may
  raise) and \<^verbatim>\<open>str\<close> of a range. The result classes are records of the keyword
  arguments they are built with.
\<close>

record 'r A1Range_ops =
  from_notation :: "pyval \<Rightarrow> error + 'r"
  range_str :: "'r \<Rightarrow> string"

record 'r InsertRowsResult =
  ins_updated_range :: 'r
  ins_updated_rows :: pyval
  ins_updated_columns :: pyval
  ins_updated_cells :: pyval
  inserted_values :: pyval

record 'r UpdateRowsResult =
  updated_range :: 'r
  updated_rows :: pyval
  updated_columns :: pyval
  updated_cells :: pyval
  updated_values :: pyval

record 'r BatchUpdateRowsRequest =
  req_range :: 'r
  req_values :: pyval

definition APPEND_MODE_OVERWRITE :: string where
  "APPEND_MODE_OVERWRITE = ''OVERWRITE''"

definition APPEND_MODE_INSERT :: string where
  "APPEND_MODE_INSERT = ''INSERT_ROWS''"

definition MAJOR_DIMENSION_ROWS :: string where
  "MAJOR_DIMENSION_ROWS = ''ROWS''"

text \<open>\<^verbatim>\<open>str(a1_range)\<close>. The scratchpad passes its recorded cell, which may be
  \<^verbatim>\<open>None\<close>; \<^verbatim>\<open>str(None)\<close> is \<^verbatim>\<open>"None"\<close>.\<close>

definition str_of_range :: "'r A1Range_ops \<Rightarrow> 'r option \<Rightarrow> string" where
  "str_of_range A r = (case r of None \<Rightarrow> ''None'' | Some x \<Rightarrow> range_str A x)"

text \<open>\<^verbatim>\<open>GoogleSheetWrapper.create_sheet\<close>.\<close>

definition create_sheet ::
  "builtins \<Rightarrow> 'w GoogleSheetWrapper \<Rightarrow> string \<Rightarrow> string \<Rightarrow> 'w \<Rightarrow> (error + string) \<times> 'w"
where
  "create_sheet B W sid name w =
     (case svc W ''batchUpdate''
             [(''spreadsheetId'', PStr sid),
              (''body'', PDict [(''requests'', PDict [(''addSheet'',
                 PDict [(''properties'', PDict [(''title'', PStr name)])])])])] w of
        (Inl e, w') \<Rightarrow> (Inl e, w')
      | (Inr resp, w') \<Rightarrow>
          (and_then (getitem_key resp ''replies'') (\<lambda>replies.
           and_then (getitem_idx replies 0) (\<lambda>reply.
           and_then (getitem_key reply ''addSheet'') (\<lambda>added.
           and_then (getitem_key added ''properties'') (\<lambda>props.
           and_then (getitem_key props ''sheetId'') (\<lambda>sheet_id.
             Inr (py_str B sheet_id)))))), w'))"

text \<open>\<^verbatim>\<open>GoogleSheetWrapper._insert_rows\<close> is \<open>insert_rows_mode\<close> (a name cannot
  start with an underscore, and \<^verbatim>\<open>insert_rows\<close> is another method); it builds its
  result with \<open>InsertRowsResult_of\<close>, whose keyword arguments are evaluated in the
  order written.\<close>

definition InsertRowsResult_of :: "'r A1Range_ops \<Rightarrow> pyval \<Rightarrow> error + 'r InsertRowsResult" where
  "InsertRowsResult_of A resp =
     and_then (getitem_key resp ''updates'') (\<lambda>u1.
     and_then (getitem_key u1 ''updatedData'') (\<lambda>d1.
     and_then (getitem_key d1 ''range'') (\<lambda>a1_text.
     and_then (from_notation A a1_text) (\<lambda>rng.
     and_then (getitem_key resp ''updates'') (\<lambda>u2.
     and_then (getitem_key u2 ''updatedRows'') (\<lambda>n_rows.
     and_then (getitem_key resp ''updates'') (\<lambda>u3.
     and_then (getitem_key u3 ''updatedColumns'') (\<lambda>n_cols.
     and_then (getitem_key resp ''updates'') (\<lambda>u4.
     and_then (getitem_key u4 ''updatedCells'') (\<lambda>n_cells.
     and_then (getitem_key resp ''updates'') (\<lambda>u5.
     and_then (getitem_key u5 ''updatedData'') (\<lambda>d5.
     and_then (getitem_key d5 ''values'') (\<lambda>vals.
       Inr \<lparr>ins_updated_range = rng, ins_updated_rows = n_rows,
            ins_updated_columns = n_cols, ins_updated_cells = n_cells,
            inserted_values = vals\<rparr>)))))))))))))"

definition insert_rows_mode ::
  "'r A1Range_ops \<Rightarrow> 'w GoogleSheetWrapper \<Rightarrow> string \<Rightarrow> 'r \<Rightarrow> pyval \<Rightarrow> string \<Rightarrow> 'w
     \<Rightarrow> (error + 'r InsertRowsResult) \<times> 'w"
where
  "insert_rows_mode A W sid a1_range vals mode w =
     (case svc W ''values.append''
             [(''spreadsheetId'', PStr sid),
              (''range'', PStr (range_str A a1_range)),
              (''insertDataOption'', PStr mode),
              (''includeValuesInResponse'', PStr ''true''),
              (''responseValueRenderOption'', PStr ''FORMATTED_VALUE''),
              (''valueInputOption'', PStr ''USER_ENTERED''),
              (''body'', PDict [(''values'', vals)])] w of
        (Inl e, w') \<Rightarrow> (Inl e, w')
      | (Inr resp, w') \<Rightarrow> (InsertRowsResult_of A resp, w'))"

definition insert_rows ::
  "'r A1Range_ops \<Rightarrow> 'w GoogleSheetWrapper \<Rightarrow> string \<Rightarrow> 'r \<Rightarrow> pyval \<Rightarrow> 'w
     \<Rightarrow> (error + 'r InsertRowsResult) \<times> 'w"
where
  "insert_rows A W sid a1_range vals w =
     insert_rows_mode A W sid a1_range vals APPEND_MODE_INSERT w"

definition overwrite_rows ::
  "'r A1Range_ops \<Rightarrow> 'w GoogleSheetWrapper \<Rightarrow> string \<Rightarrow> 'r \<Rightarrow> pyval \<Rightarrow> 'w
     \<Rightarrow> (error + 'r InsertRowsResult) \<times> 'w"
where
  "overwrite_rows A W sid a1_range vals w =
     insert_rows_mode A W sid a1_range vals APPEND_MODE_OVERWRITE w"

text \<open>\<^verbatim>\<open>GoogleSheetWrapper.clear\<close>; the service's answer is dropped.\<close>

definition clear ::
  "'r A1Range_ops \<Rightarrow> 'w GoogleSheetWrapper \<Rightarrow> string \<Rightarrow> 'r option list \<Rightarrow> 'w \<Rightarrow> (error + unit) \<times> 'w"
where
  "clear A W sid ranges w =
     (case svc W ''values.batchClear''
             [(''spreadsheetId'', PStr sid),
              (''body'', PDict [(''ranges'', PList (map (\<lambda>r. PStr (str_of_range A r)) ranges))])] w of
        (Inl e, w') \<Rightarrow> (Inl e, w')
      | (Inr resp, w') \<Rightarrow> (Inr (), w'))"

text \<open>The \<^verbatim>\<open>UpdateRowsResult(...)\<close> expression that \<^verbatim>\<open>update_rows\<close> builds from the
  response and \<^verbatim>\<open>batch_update_rows\<close> from each entry of the response list.\<close>

definition UpdateRowsResult_of :: "'r A1Range_ops \<Rightarrow> pyval \<Rightarrow> error + 'r UpdateRowsResult" where
  "UpdateRowsResult_of A response =
     and_then (getitem_key response ''updatedRange'') (\<lambda>a1_text.
     and_then (from_notation A a1_text) (\<lambda>rng.
     and_then (getitem_key response ''updatedRows'') (\<lambda>n_rows.
     and_then (getitem_key response ''updatedColumns'') (\<lambda>n_cols.
     and_then (getitem_key response ''updatedCells'') (\<lambda>n_cells.
     and_then (getitem_key response ''updatedData'') (\<lambda>d.
     and_then (dict_get d ''values'' (PList [])) (\<lambda>vals.
       Inr \<lparr>updated_range = rng, updated_rows = n_rows, updated_columns = n_cols,
            updated_cells = n_cells, updated_values = vals\<rparr>)))))))"

text \<open>\<^verbatim>\<open>GoogleSheetWrapper.update_rows\<close>.\<close>

definition update_rows ::
  "'r A1Range_ops \<Rightarrow> 'w GoogleSheetWrapper \<Rightarrow> string \<Rightarrow> 'r option \<Rightarrow> pyval \<Rightarrow> 'w
     \<Rightarrow> (error + 'r UpdateRowsResult) \<times> 'w"
where
  "update_rows A W sid a1_range vals w =
     (case svc W ''values.update''
             [(''spreadsheetId'', PStr sid),
              (''range'', PStr (str_of_range A a1_range)),
              (''includeValuesInResponse'', PStr ''true''),
              (''responseValueRenderOption'', PStr ''FORMATTED_VALUE''),
              (''valueInputOption'', PStr ''USER_ENTERED''),
              (''body'', PDict [(''majorDimension'', PStr MAJOR_DIMENSION_ROWS),
                                (''range'', PStr (str_of_range A a1_range)),
                                (''values'', vals)])] w of
        (Inl e, w') \<Rightarrow> (Inl e, w')
      | (Inr resp, w') \<Rightarrow> (UpdateRowsResult_of A resp, w'))"

text \<open>\<^verbatim>\<open>GoogleSheetWrapper.batch_update_rows\<close>: one service call for all requests,
  then the loop over \<^verbatim>\<open>resp["responses"]\<close>, which appends one result per entry and
  stops at the first entry that raises.\<close>

definition batch_update_body :: "'r A1Range_ops \<Rightarrow> 'r BatchUpdateRowsRequest list \<Rightarrow> pyval" where
  "batch_update_body A requests =
     PDict [(''includeValuesInResponse'', PBool True),
            (''responseValueRenderOption'', PStr ''FORMATTED_VALUE''),
            (''valueInputOption'', PStr ''USER_ENTERED''),
            (''data'', PList (map (\<lambda>req.
               PDict [(''majorDimension'', PStr MAJOR_DIMENSION_ROWS),
                      (''range'', PStr (range_str A (req_range req))),
                      (''values'', req_values req)]) requests))]"

fun collect_results ::
  "'r A1Range_ops \<Rightarrow> pyval list \<Rightarrow> 'r UpdateRowsResult list \<Rightarrow> error + 'r UpdateRowsResult list"
where
  "collect_results A [] results = Inr results"
| "collect_results A (response # responses) results =
     and_then (UpdateRowsResult_of A response) (\<lambda>r.
       collect_results A responses (results @ [r]))"

definition batch_update_rows ::
  "'r A1Range_ops \<Rightarrow> 'w GoogleSheetWrapper \<Rightarrow> string \<Rightarrow> 'r BatchUpdateRowsRequest list \<Rightarrow> 'w
     \<Rightarrow> (error + 'r UpdateRowsResult list) \<times> 'w"
where
  "batch_update_rows A W sid requests w =
     (case svc W ''values.batchUpdate''
             [(''spreadsheetId'', PStr sid), (''body'', batch_update_body A requests)] w of
        (Inl e, w') \<Rightarrow> (Inl e, w')
      | (Inr resp, w') \<Rightarrow>
          (and_then (getitem_key resp ''responses'') (\<lambda>responses.
           and_then (py_iter responses) (\<lambda>rs.
             collect_results A rs [])), w'))"

section \<open>Sessions and scratchpads\<close>

text \<open>
  An instance attribute that a method reads is either set on the instance or not;
  reading one that is not set raises \<open>AttributeError\<close>. (Neither class defines
  \<^verbatim>\<open>__getattr__\<close> or class attributes of these names.)
\<close>

datatype 'a attr = Absent | Present 'a

text \<open>
  \<^verbatim>\<open>GoogleSheetSession\<close>. Its \<^verbatim>\<open>__init__\<close> sets \<^verbatim>\<open>spreadsheet_id\<close>,
  \<^verbatim>\<open>sheet_name\<close> and \<^verbatim>\<open>_wrapper\<close>; \<^verbatim>\<open>_ensure\<close> also reads
  \<^verbatim>\<open>_scratchpad_name\<close>, which nothing in the class sets.
\<close>

record 'w GoogleSheetSession =
  spreadsheet_id :: string
  sheet_name :: string
  wrapper :: "'w GoogleSheetWrapper"
  scratchpad_name :: "string attr"

text \<open>\<^verbatim>\<open>GoogleSheetSession._ensure\<close>: the call, with the evaluation of its
  arguments, sits in \<^verbatim>\<open>try\<close>; \<^verbatim>\<open>except Exception: pass\<close> drops whatever it
  raises. What the service did to the world before raising stays done.\<close>

definition ensure :: "builtins \<Rightarrow> 'w GoogleSheetSession \<Rightarrow> 'w \<Rightarrow> (error + unit) \<times> 'w" where
  "ensure B self w =
     (case (case scratchpad_name self of
              Absent \<Rightarrow> (Inl (AttributeError ''_scratchpad_name''), w)
            | Present name \<Rightarrow> create_sheet B (wrapper self) (spreadsheet_id self) name w) of
        (Inl e, w') \<Rightarrow> (Inr (), w')
      | (Inr sheet_id, w') \<Rightarrow> (Inr (), w'))"

text \<open>\<^verbatim>\<open>GoogleSheetSession.__init__\<close>.\<close>

definition GoogleSheetSession_init ::
  "builtins \<Rightarrow> 'w GoogleSheetWrapper \<Rightarrow> string \<Rightarrow> string \<Rightarrow> 'w
     \<Rightarrow> (error + 'w GoogleSheetSession) \<times> 'w"
where
  "GoogleSheetSession_init B W sid name w =
     (let self = \<lparr>spreadsheet_id = sid, sheet_name = name, wrapper = W,
                  scratchpad_name = Absent\<rparr>
      in case ensure B self w of
           (Inl e, w') \<Rightarrow> (Inl e, w')
         | (Inr u, w') \<Rightarrow> (Inr self, w'))"

text \<open>\<^verbatim>\<open>GoogleSheetSession.overwrite_rows\<close>.\<close>

definition session_overwrite_rows ::
  "'r A1Range_ops \<Rightarrow> 'w GoogleSheetSession \<Rightarrow> 'r \<Rightarrow> pyval \<Rightarrow> 'w
     \<Rightarrow> (error + 'r InsertRowsResult) \<times> 'w"
where
  "session_overwrite_rows A self a1_range vals w =
     overwrite_rows A (wrapper self) (spreadsheet_id self) a1_range vals w"

text \<open>
  \<^verbatim>\<open>GoogleSheetScratchpad\<close>. Its \<^verbatim>\<open>__init__\<close> sets \<^verbatim>\<open>_session\<close> and
  \<^verbatim>\<open>_scratchpad_cell\<close> (a range or \<^verbatim>\<open>None\<close>); \<^verbatim>\<open>execute\<close> and \<^verbatim>\<open>close\<close>
  read \<^verbatim>\<open>_wrapper\<close> and \<^verbatim>\<open>_spreadsheet_id\<close> of the scratchpad itself
  (\<open>own_wrapper\<close>, \<open>own_spreadsheet_id\<close>). Every method returns the instance as it
  leaves it, next to its result and the world.
\<close>

record ('w, 'r) GoogleSheetScratchpad =
  session :: "'w GoogleSheetSession"
  scratchpad_cell :: "'r option attr"
  own_wrapper :: "'w GoogleSheetWrapper attr"
  own_spreadsheet_id :: "string attr"

definition SCRATCHPAD_BOOKED_VALUE :: string where
  "SCRATCHPAD_BOOKED_VALUE = ''BOOKED''"

text \<open>\<^verbatim>\<open>GoogleSheetScratchpad._book_scratchpad_cell\<close>: it records the updated
  range on the instance and, having no \<^verbatim>\<open>return\<close>, returns \<^verbatim>\<open>None\<close>.\<close>

definition book_scratchpad_cell ::
  "'r A1Range_ops \<Rightarrow> ('w, 'r) GoogleSheetScratchpad \<Rightarrow> 'w
     \<Rightarrow> (error + 'r option) \<times> ('w, 'r) GoogleSheetScratchpad \<times> 'w"
where
  "book_scratchpad_cell A self w =
     (case from_notation A (PStr (sheet_name (session self))) of
        Inl e \<Rightarrow> (Inl e, self, w)
      | Inr a1_range \<Rightarrow>
          (case session_overwrite_rows A (session self) a1_range
                  (PList [PList [PStr SCRATCHPAD_BOOKED_VALUE]]) w of
             (Inl e, w') \<Rightarrow> (Inl e, self, w')
           | (Inr result, w') \<Rightarrow>
               (Inr None,
                self\<lparr>scratchpad_cell := Present (Some (ins_updated_range result))\<rparr>, w')))"

text \<open>\<^verbatim>\<open>GoogleSheetScratchpad.__init__\<close>: the value \<^verbatim>\<open>_book_scratchpad_cell\<close>
  returns is assigned to \<^verbatim>\<open>_scratchpad_cell\<close>.\<close>

definition GoogleSheetScratchpad_init ::
  "'r A1Range_ops \<Rightarrow> 'w GoogleSheetSession \<Rightarrow> 'w
     \<Rightarrow> (error + ('w, 'r) GoogleSheetScratchpad) \<times> 'w"
where
  "GoogleSheetScratchpad_init A s w =
     (let self = \<lparr>session = s, scratchpad_cell = Absent, own_wrapper = Absent,
                  own_spreadsheet_id = Absent\<rparr>
      in case book_scratchpad_cell A self w of
           (Inl e, self', w') \<Rightarrow> (Inl e, w')
         | (Inr returned, self', w') \<Rightarrow>
             (Inr (self'\<lparr>scratchpad_cell := Present returned\<rparr>), w'))"

text \<open>\<^verbatim>\<open>GoogleSheetScratchpad.execute\<close>: the receiver \<^verbatim>\<open>self._wrapper\<close> is
  evaluated first, then the arguments from left to right.\<close>

definition execute ::
  "'r A1Range_ops \<Rightarrow> ('w, 'r) GoogleSheetScratchpad \<Rightarrow> string \<Rightarrow> 'w
     \<Rightarrow> (error + pyval) \<times> ('w, 'r) GoogleSheetScratchpad \<times> 'w"
where
  "execute A self formula w =
     (case own_wrapper self of
        Absent \<Rightarrow> (Inl (AttributeError ''_wrapper''), self, w)
      | Present W \<Rightarrow>
     (case own_spreadsheet_id self of
        Absent \<Rightarrow> (Inl (AttributeError ''_spreadsheet_id''), self, w)
      | Present sid \<Rightarrow>
     (case scratchpad_cell self of
        Absent \<Rightarrow> (Inl (AttributeError ''_scratchpad_cell''), self, w)
      | Present cell \<Rightarrow>
     (case update_rows A W sid cell (PList [PList [PStr formula]]) w of
        (Inl e, w') \<Rightarrow> (Inl e, self, w')
      | (Inr result, w') \<Rightarrow>
          (and_then (getitem_idx (updated_values result) 0) (\<lambda>row. getitem_idx row 0),
           self, w')))))"

text \<open>\<^verbatim>\<open>GoogleSheetScratchpad.close\<close>.\<close>

definition close ::
  "'r A1Range_ops \<Rightarrow> ('w, 'r) GoogleSheetScratchpad \<Rightarrow> 'w
     \<Rightarrow> (error + unit) \<times> ('w, 'r) GoogleSheetScratchpad \<times> 'w"
where
  "close A self w =
     (case own_wrapper self of
        Absent \<Rightarrow> (Inl (AttributeError ''_wrapper''), self, w)
      | Present W \<Rightarrow>
     (case own_spreadsheet_id self of
        Absent \<Rightarrow> (Inl (AttributeError ''_spreadsheet_id''), self, w)
      | Present sid \<Rightarrow>
     (case scratchpad_cell self of
        Absent \<Rightarrow> (Inl (AttributeError ''_scratchpad_cell''), self, w)
      | Present cell \<Rightarrow>
     (case clear A W sid [cell] w of
        (r, w') \<Rightarrow> (r, self, w')))))"

section \<open>Example collaborators\<close>

text \<open>
  Concrete builtins, ranges and a concrete service, on which the theorems below are
  run. Ranges are their own notation. The service logs every call and answers
  \<^verbatim>\<open>values.append\<close> and \<^verbatim>\<open>values.batchUpdate\<close>; every other method raises.
  \<open>example_builtins\<close> knows the JSON text of two query responses.
\<close>

definition json_one_row :: pyval where
  "json_one_row = PDict [(''table'', PDict
     [(''cols'', PList [PDict [(''id'', PStr ''A''), (''type'', PStr ''string'')],
                        PDict [(''id'', PStr ''B''), (''type'', PStr ''number'')],
                        PDict [(''id'', PStr ''C''), (''type'', PStr ''number'')]]),
      (''rows'', PList [PDict [(''c'', PList [PDict [(''v'', PStr ''n1'')], PNone,
                                              PDict [(''v'', PNone)]])]])])]"

definition json_no_rows :: pyval where
  "json_no_rows = PDict [(''table'', PDict
     [(''cols'', PList [PDict [(''id'', PStr ''A''), (''type'', PStr ''string'')]]),
      (''rows'', PList [])])]"

definition response_one_row :: string where
  "response_one_row = ''freeleh({\"table\":{\"cols\":[{\"id\":\"A\",\"type\":\"string\"},{\"id\":\"B\",\"type\":\"number\"},{\"id\":\"C\",\"type\":\"number\"}],\"rows\":[{\"c\":[{\"v\":\"n1\"},null,{\"v\":null}]}]}});''"

definition response_no_rows :: string where
  "response_no_rows = ''freeleh({\"table\":{\"cols\":[{\"id\":\"A\",\"type\":\"string\"}],\"rows\":[]}});''"

definition example_builtins :: builtins where
  "example_builtins =
     \<lparr>json_loads = (\<lambda>s.
        if s = ''{\"table\":{\"cols\":[{\"id\":\"A\",\"type\":\"string\"},{\"id\":\"B\",\"type\":\"number\"},{\"id\":\"C\",\"type\":\"number\"}],\"rows\":[{\"c\":[{\"v\":\"n1\"},null,{\"v\":null}]}]}}''
          then Inr json_one_row
        else if s = ''{\"table\":{\"cols\":[{\"id\":\"A\",\"type\":\"string\"}],\"rows\":[]}}''
          then Inr json_no_rows
        else Inl (ValueError ''Expecting value'')),
      int_of_str = (\<lambda>s. if s = ''10'' then Inr 10 else Inl (ValueError s)),
      float_of_str = (\<lambda>s. if s = ''1.5'' then Inr 0x3FF8000000000000 else Inl (ValueError s)),
      repr_of = (\<lambda>v. ''?'')\<rparr>"

definition example_ranges :: "string A1Range_ops" where
  "example_ranges =
     \<lparr>from_notation = (\<lambda>v. case v of PStr s \<Rightarrow> Inr s | _ \<Rightarrow> Inl TypeError),
      range_str = (\<lambda>r. r)\<rparr>"

type_synonym calls = "(string \<times> (string \<times> pyval) list) list"

definition append_response :: pyval where
  "append_response = PDict [(''updates'', PDict
     [(''updatedData'', PDict [(''range'', PStr ''Sheet1!A1''),
                               (''values'', PList [PList [PStr ''BOOKED'']])]),
      (''updatedRows'', PInt 1), (''updatedColumns'', PInt 1), (''updatedCells'', PInt 1)])]"

definition entry1 :: pyval where
  "entry1 = PDict [(''updatedRange'', PStr ''Sheet1!A2:B2''), (''updatedRows'', PInt 1),
     (''updatedColumns'', PInt 2), (''updatedCells'', PInt 2),
     (''updatedData'', PDict [(''values'', PList [PList [PStr ''n1'', PStr ''10'']])])]"

definition entry2 :: pyval where
  "entry2 = PDict [(''updatedRange'', PStr ''Sheet1!A5''), (''updatedRows'', PInt 1),
     (''updatedColumns'', PInt 1), (''updatedCells'', PInt 1),
     (''updatedData'', PDict [])]"

definition example_service :: "calls service" where
  "example_service method kwargs w =
     (if method = ''values.append'' then Inr append_response
      else if method = ''values.batchUpdate''
        then Inr (PDict [(''responses'', PList [entry1, entry2])])
      else Inl (ServiceError method),
      w @ [(method, kwargs)])"

definition example_wrapper :: "calls GoogleSheetWrapper" where
  "example_wrapper = \<lparr>svc = example_service\<rparr>"

definition example_session :: "calls GoogleSheetSession" where
  "example_session = \<lparr>spreadsheet_id = ''sid'', sheet_name = ''Sheet1'',
                       wrapper = example_wrapper, scratchpad_name = Absent\<rparr>"

definition example_requests :: "string BatchUpdateRowsRequest list" where
  "example_requests =
     [\<lparr>req_range = ''Sheet1!A2:B2'', req_values = PList [PList [PStr ''n1'', PInt 10]]\<rparr>,
      \<lparr>req_range = ''Sheet1!A5'', req_values = PList [PList [PStr ''x'']]\<rparr>]"

text \<open>The scratchpad that \<^verbatim>\<open>GoogleSheetScratchpad(example_session)\<close> yields, and the
  log of the one call that makes it.\<close>

definition example_scratchpad :: "(calls, string) GoogleSheetScratchpad" where
  "example_scratchpad = \<lparr>session = example_session, scratchpad_cell = Present None,
                          own_wrapper = Absent, own_spreadsheet_id = Absent\<rparr>"

definition booking_calls :: calls where
  "booking_calls = [(''values.append'',
      [(''spreadsheetId'', PStr ''sid''), (''range'', PStr ''Sheet1''),
       (''insertDataOption'', PStr ''OVERWRITE''), (''includeValuesInResponse'', PStr ''true''),
       (''responseValueRenderOption'', PStr ''FORMATTED_VALUE''),
       (''valueInputOption'', PStr ''USER_ENTERED''),
       (''body'', PDict [(''values'', PList [PList [PStr ''BOOKED'']])])])]"


text \<open>A single request, and a scratchpad on which \<^verbatim>\<open>_wrapper\<close>,
  \<^verbatim>\<open>_spreadsheet_id\<close> and a booked cell have been set from outside, over a service
  that answers \<^verbatim>\<open>values.update\<close> and \<^verbatim>\<open>values.batchClear\<close>.\<close>

definition example_single_request :: "string BatchUpdateRowsRequest list" where
  "example_single_request =
     [\<lparr>req_range = ''Sheet1!A2:B2'', req_values = PList [PList [PStr ''n1'', PInt 10]]\<rparr>]"

definition update_response :: pyval where
  "update_response = PDict [(''updatedRange'', PStr ''Sheet1!A1''), (''updatedRows'', PInt 1),
     (''updatedColumns'', PInt 1), (''updatedCells'', PInt 1),
     (''updatedData'', PDict [(''values'', PList [PList [PStr ''3'']])])]"

definition answering_service :: "calls service" where
  "answering_service method kwargs w =
     (if method = ''values.update'' then Inr update_response
      else if method = ''values.batchClear'' then Inr (PDict [])
      else Inl (ServiceError method),
      w @ [(method, kwargs)])"

definition answering_wrapper :: "calls GoogleSheetWrapper" where
  "answering_wrapper = \<lparr>svc = answering_service\<rparr>"

definition wired_scratchpad :: "(calls, string) GoogleSheetScratchpad" where
  "wired_scratchpad = \<lparr>session = example_session, scratchpad_cell = Present (Some ''Sheet1!A1''),
                        own_wrapper = Present answering_wrapper,
                        own_spreadsheet_id = Present ''sid''\<rparr>"


section \<open>Basic facts\<close>

lemma and_then_Inr [simp]: "and_then (Inr x) f = f x"
  by (simp add: and_then_def)

lemma and_then_Inl [simp]: "and_then (Inl e) f = Inl e"
  by (simp add: and_then_def)

lemma and_then_eq_Inr: "and_then m f = Inr y \<longleftrightarrow> (\<exists>x. m = Inr x \<and> f x = Inr y)"
  by (cases m) simp_all

lemma setitem_eq_Inr: "setitem d k v = Inr d' \<longleftrightarrow> hashable k \<and> d' = dict_setitem d k v"
  by (auto simp: setitem_def)

text \<open>Reading a dictionary after an assignment.\<close>

lemma dict_lookup_setitem:
  "dict_lookup (dict_setitem d k v) k2
     = (if key_norm k = key_norm k2 then Some v else dict_lookup d k2)"
  by (induction d) auto

text \<open>\<^verbatim>\<open>1\<close>, \<^verbatim>\<open>True\<close> and \<^verbatim>\<open>1.0\<close> are one key, which stays as first
  inserted; so are \<^verbatim>\<open>0.0\<close> and \<^verbatim>\<open>-0.0\<close>.\<close>

lemma one_key:
  "dict_setitem (dict_setitem (dict_setitem [] (PInt 1) a) (PBool True) b)
      (PFloat 0x3FF0000000000000) c = [(PInt 1, c)]
   \<and> dict_lookup [(PBool True, b)] (PInt 1) = Some b
   \<and> dict_setitem (dict_setitem [] (PFloat 0) a) (PFloat 0x8000000000000000) b = [(PFloat 0, b)]"
  by (simp add: float_as_int_def)

section \<open>The decoder: cell by cell\<close>

text \<open>A cell that is null or empty, or whose value is null, decodes to null before the
  column is looked at.\<close>

lemma parse_cell_null:
  "\<not> truthy cell \<or> getitem_key cell ''v'' = Inr PNone \<Longrightarrow> parse_cell B cell col = Inr PNone"
  by (auto simp: parse_cell_def)

text \<open>
  Claim C1, as the code has it. A cell (not null or empty, its value not null: those
  decode to null by the rule before) in a column whose type is none of boolean,
  number, string, date, datetime and timeofday is not decoded: \<^verbatim>\<open>_parse_cell\<close>
  raises \<open>ValueError\<close>, not an \<open>UnsupportedTypeError\<close>, with the message
  \<^verbatim>\<open>cell type <type> is not supported\<close>, which names the column type.
\<close>

theorem parse_cell_unsupported:
  assumes "truthy cell" and "getitem_key cell ''v'' = Inr v" and "v \<noteq> PNone"
    and "getitem_key col ''type'' = Inr typ"
    and "typ \<notin> set [PStr ''boolean'', PStr ''number'', PStr ''string'',
                      PStr ''date'', PStr ''datetime'', PStr ''timeofday'']"
  shows "parse_cell B cell col
           = Inl (ValueError (''cell type '' @ py_str B typ @ '' is not supported''))"
  using assms by (simp add: parse_cell_def)

text \<open>A cell with the value 3 in a column of type \<^verbatim>\<open>duration\<close>.\<close>

theorem parse_cell_unsupported_witness:
  "parse_cell example_builtins (PDict [(''v'', PInt 3)])
       (PDict [(''id'', PStr ''A''), (''type'', PStr ''duration'')])
     = Inl (ValueError ''cell type duration is not supported'')"
  using parse_cell_unsupported [of "PDict [(''v'', PInt 3)]" "PInt 3"
      "PDict [(''id'', PStr ''A''), (''type'', PStr ''duration'')]" "PStr ''duration''"
      example_builtins]
  by (simp add: py_str_def)

text \<open>A cell holding \<^verbatim>\<open>1h\<close> in a column of type \<^verbatim>\<open>duration\<close>: what is
  raised is a \<open>ValueError\<close>, and so not an \<open>UnsupportedTypeError\<close>.\<close>

theorem parse_cell_unsupported_is_ValueError:
  "parse_cell example_builtins (PDict [(''v'', PStr ''1h''), (''f'', PStr ''1h'')])
       (PDict [(''id'', PStr ''D''), (''type'', PStr ''duration'')])
     = Inl (ValueError ''cell type duration is not supported'')
   \<and> \<not> raises_UnsupportedTypeError
        (parse_cell example_builtins (PDict [(''v'', PStr ''1h''), (''f'', PStr ''1h'')])
           (PDict [(''id'', PStr ''D''), (''type'', PStr ''duration'')]))"
  by (simp add: parse_cell_def py_str_def)

text \<open>
  Claim C6. For a cell of a column of type number (the cell not null, with a value and
  a formatted string \<open>s\<close>), the decoder parses \<open>s\<close> and never the raw value: the
  result is \<^verbatim>\<open>float(s)\<close> when \<open>s\<close> contains a decimal point and \<^verbatim>\<open>int(s)\<close>
  otherwise, with whatever either raises.
\<close>

theorem parse_cell_number:
  assumes "truthy cell" and "getitem_key cell ''v'' = Inr v" and "v \<noteq> PNone"
    and "getitem_key col ''type'' = Inr (PStr ''number'')"
    and "getitem_key cell ''f'' = Inr (PStr s)"
  shows "parse_cell B cell col =
           (if CHR ''.'' \<in> set s then map_sum id PFloat (float_of_str B s)
            else map_sum id PInt (int_of_str B s))"
  using assms by (simp add: parse_cell_def)

text \<open>The raw value 10.5 displayed as \<^verbatim>\<open>10\<close> decodes to the integer 10; the raw
  value 2 displayed as \<^verbatim>\<open>1.5\<close> decodes to the float 1.5.\<close>

theorem parse_cell_number_witness:
  "parse_cell example_builtins (PDict [(''v'', PFloat 0x4025000000000000), (''f'', PStr ''10'')])
       (PDict [(''id'', PStr ''B''), (''type'', PStr ''number'')]) = Inr (PInt 10)
   \<and> parse_cell example_builtins (PDict [(''v'', PInt 2), (''f'', PStr ''1.5'')])
       (PDict [(''id'', PStr ''B''), (''type'', PStr ''number'')])
       = Inr (PFloat 0x3FF8000000000000)"
  using parse_cell_number [of "PDict [(''v'', PFloat 0x4025000000000000), (''f'', PStr ''10'')]"
      "PFloat 0x4025000000000000" "PDict [(''id'', PStr ''B''), (''type'', PStr ''number'')]"
      "''10''" example_builtins]
    parse_cell_number [of "PDict [(''v'', PInt 2), (''f'', PStr ''1.5'')]"
      "PInt 2" "PDict [(''id'', PStr ''B''), (''type'', PStr ''number'')]" "''1.5''"
      example_builtins]
  by (simp add: example_builtins_def)

text \<open>
  Claim C8. For a cell of a column of type date, datetime or timeofday (the cell not
  null, with a value and a formatted value \<open>f\<close>), the decoder returns \<open>f\<close> as it is;
  no date or time object is built.
\<close>

theorem parse_cell_date:
  assumes "truthy cell" and "getitem_key cell ''v'' = Inr v" and "v \<noteq> PNone"
    and "getitem_key col ''type'' = Inr typ"
    and "typ \<in> set [PStr ''date'', PStr ''datetime'', PStr ''timeofday'']"
    and "getitem_key cell ''f'' = Inr f"
  shows "parse_cell B cell col = Inr f"
  using assms by (auto simp add: parse_cell_def)

theorem parse_cell_date_witness:
  "parse_cell example_builtins
       (PDict [(''v'', PStr ''Date(1999,0,1)''), (''f'', PStr ''1-1-1999'')])
       (PDict [(''id'', PStr ''C''), (''type'', PStr ''date'')]) = Inr (PStr ''1-1-1999'')"
  using parse_cell_date [of "PDict [(''v'', PStr ''Date(1999,0,1)''), (''f'', PStr ''1-1-1999'')]"
      "PStr ''Date(1999,0,1)''" "PDict [(''id'', PStr ''C''), (''type'', PStr ''date'')]"
      "PStr ''date''" "PStr ''1-1-1999''" example_builtins]
  by simp


section \<open>The decoder: rows\<close>

text \<open>A key that no non-empty cell of the row writes keeps the binding it had.\<close>

lemma convert_cells_other_keys:
  assumes "convert_cells B cols cells idx acc = Inr row"
    and "\<forall>j<length cells. truthy (cells ! j) \<longrightarrow>
           (\<forall>c k'. getitem_idx cols (idx + j) = Inr c \<longrightarrow> getitem_key c ''id'' = Inr k'
              \<longrightarrow> key_norm k' \<noteq> key_norm k)"
  shows "dict_lookup row k = dict_lookup acc k"
  using assms
proof (induction cells arbitrary: idx acc)
  case Nil
  then show ?case by simp
next
  case (Cons cell cells)
  have rest: "\<forall>j<length cells. truthy (cells ! j) \<longrightarrow>
           (\<forall>c k'. getitem_idx cols (Suc idx + j) = Inr c \<longrightarrow> getitem_key c ''id'' = Inr k'
              \<longrightarrow> key_norm k' \<noteq> key_norm k)"
  proof (intro allI impI)
    fix j c k'
    assume "j < length cells" "truthy (cells ! j)" "getitem_idx cols (Suc idx + j) = Inr c"
      "getitem_key c ''id'' = Inr k'"
    with Cons.prems(2) [rule_format, of "Suc j" c k'] show "key_norm k' \<noteq> key_norm k"
      by simp
  qed
  show ?case
  proof (cases "truthy cell")
    case False
    with Cons.prems(1) have "convert_cells B cols cells (Suc idx) acc = Inr row"
      by simp
    from Cons.IH [OF this rest] show ?thesis .
  next
    case True
    with Cons.prems(1) obtain col v k' where
      col: "getitem_idx cols idx = Inr col" and
      k': "getitem_key col ''id'' = Inr k'" and
      hk: "hashable k'" and
      run: "convert_cells B cols cells (Suc idx) (dict_setitem acc k' v) = Inr row"
      by (auto simp: and_then_eq_Inr setitem_eq_Inr)
    from Cons.prems(2) [rule_format, of 0 col k'] True col k' have "key_norm k' \<noteq> key_norm k"
      by auto
    with Cons.IH [OF run rest] show ?thesis
      by (simp add: dict_lookup_setitem)
  qed
qed

text \<open>A non-empty cell with a null value leaves null under its column's id, unless a
  later cell writes an equal id.\<close>

lemma convert_cells_null_value:
  assumes "convert_cells B cols cells idx acc = Inr row"
    and "i < length cells" and "truthy (cells ! i)"
    and "getitem_key (cells ! i) ''v'' = Inr PNone"
    and "getitem_idx cols (idx + i) = Inr col" and "getitem_key col ''id'' = Inr k"
    and "\<forall>j<length cells. i < j \<longrightarrow> truthy (cells ! j) \<longrightarrow>
           (\<forall>c k'. getitem_idx cols (idx + j) = Inr c \<longrightarrow> getitem_key c ''id'' = Inr k'
              \<longrightarrow> key_norm k' \<noteq> key_norm k)"
  shows "dict_lookup row k = Some PNone"
  using assms
proof (induction cells arbitrary: idx acc i)
  case Nil
  then show ?case by simp
next
  case (Cons cell cells)
  show ?case
  proof (cases i)
    case 0
    with Cons.prems have t: "truthy cell" and v: "getitem_key cell ''v'' = Inr PNone"
      and c: "getitem_idx cols idx = Inr col"
      by simp_all
    have p: "parse_cell B cell col = Inr PNone"
      using v by (rule parse_cell_null [OF disjI2])
    from Cons.prems(1) t c p \<open>getitem_key col ''id'' = Inr k\<close>
    have run: "convert_cells B cols cells (Suc idx) (dict_setitem acc k PNone) = Inr row"
      by (auto simp: and_then_eq_Inr setitem_eq_Inr)
    have rest: "\<forall>j<length cells. truthy (cells ! j) \<longrightarrow>
           (\<forall>c k'. getitem_idx cols (Suc idx + j) = Inr c \<longrightarrow> getitem_key c ''id'' = Inr k'
              \<longrightarrow> key_norm k' \<noteq> key_norm k)"
    proof (intro allI impI)
      fix j c k'
      assume "j < length cells" "truthy (cells ! j)" "getitem_idx cols (Suc idx + j) = Inr c"
        "getitem_key c ''id'' = Inr k'"
      with Cons.prems(7) [rule_format, of "Suc j" c k'] 0 show "key_norm k' \<noteq> key_norm k"
        by simp
    qed
    from convert_cells_other_keys [OF run rest] show ?thesis
      by (simp add: dict_lookup_setitem)
  next
    case (Suc i')
    from Cons.prems(1) obtain acc' where
      run: "convert_cells B cols cells (Suc idx) acc' = Inr row"
      by (cases "truthy cell") (auto simp: and_then_eq_Inr)
    have rest: "\<forall>j<length cells. i' < j \<longrightarrow> truthy (cells ! j) \<longrightarrow>
           (\<forall>c k'. getitem_idx cols (Suc idx + j) = Inr c \<longrightarrow> getitem_key c ''id'' = Inr k'
              \<longrightarrow> key_norm k' \<noteq> key_norm k)"
    proof (intro allI impI)
      fix j c k'
      assume "j < length cells" "i' < j" "truthy (cells ! j)"
        "getitem_idx cols (Suc idx + j) = Inr c" "getitem_key c ''id'' = Inr k'"
      with Cons.prems(7) [rule_format, of "Suc j" c k'] Suc show "key_norm k' \<noteq> key_norm k"
        by simp
    qed
    from Cons.prems Suc have "i' < length cells" "truthy (cells ! i')"
      "getitem_key (cells ! i') ''v'' = Inr PNone" "getitem_idx cols (Suc idx + i') = Inr col"
      by simp_all
    from Cons.IH [OF run this \<open>getitem_key col ''id'' = Inr k\<close> rest] show ?thesis .
  qed
qed

text \<open>The result row at position \<open>r\<close> is the conversion of the cells of row \<open>r\<close>.\<close>

lemma convert_rows_nth:
  assumes "convert_rows B cols rows = Inr results" and "r < length rows"
    and "getitem_key (rows ! r) ''c'' = Inr c" and "py_iter c = Inr cells"
  shows "convert_cells B cols cells 0 [] = Inr (results ! r)"
  using assms
proof (induction rows arbitrary: results r)
  case Nil
  then show ?case by simp
next
  case (Cons row rows)
  from Cons.prems(1) obtain c0 cells0 row0 rest where
    c0: "getitem_key row ''c'' = Inr c0" and cells0: "py_iter c0 = Inr cells0" and
    row0: "convert_cells B cols cells0 0 [] = Inr row0" and
    rest: "convert_rows B cols rows = Inr rest" and res: "results = row0 # rest"
    by (auto simp: and_then_eq_Inr)
  show ?case
  proof (cases r)
    case 0
    with Cons.prems c0 cells0 row0 res show ?thesis by simp
  next
    case (Suc r')
    with Cons.prems have "r' < length rows" "getitem_key (rows ! r') ''c'' = Inr c"
      by simp_all
    from Cons.IH [OF rest this \<open>py_iter c = Inr cells\<close>] Suc res show ?thesis by simp
  qed
qed

lemma convert_rows_length:
  "convert_rows B cols rows = Inr results \<Longrightarrow> length results = length rows"
  by (induction rows arbitrary: results) (auto simp: and_then_eq_Inr)

text \<open>The example response with one row, converted.\<close>

lemma convert_one_row:
  "convert_query_result example_builtins response_one_row
     = Inr [[(PStr ''A'', PStr ''n1''), (PStr ''C'', PNone)]]"
  by (simp add: convert_query_result_def response_one_row_def example_builtins_def
      json_one_row_def py_index_def py_rindex_def slice_def parse_cell_def setitem_def)

text \<open>
  Claim C2, as the code has it. For every query response that converts, and every
  column type: \<^verbatim>\<open>_parse_cell\<close> decodes a null or empty cell, and a cell whose
  value is null, to null. In the decoded row a cell that is an object with a null value
  yields null under its column's id, while a null or empty cell is skipped and leaves no
  entry under its column's id. (The ids of the columns of the row's other non-empty
  cells are taken to differ from this one, as keys of a dictionary.)
\<close>

theorem convert_query_result_null_cells:
  assumes "convert_query_result B response = Inr results"
    and "py_index response (CHR ''{'') = Inr start"
    and "py_rindex response (CHR ''}'') = Inr stop"
    and "json_loads B (slice response start (stop + 1)) = Inr resp"
    and "getitem_key resp ''table'' = Inr table"
    and "getitem_key table ''cols'' = Inr cols"
    and "getitem_key table ''rows'' = Inr (PList rows)"
    and "r < length rows"
    and "getitem_key (rows ! r) ''c'' = Inr (PList cells)"
    and "i < length cells"
    and "getitem_idx cols i = Inr col"
    and "getitem_key col ''id'' = Inr k"
    and "\<forall>j<length cells. j \<noteq> i \<longrightarrow> truthy (cells ! j) \<longrightarrow>
           (\<forall>c k'. getitem_idx cols j = Inr c \<longrightarrow> getitem_key c ''id'' = Inr k'
              \<longrightarrow> key_norm k' \<noteq> key_norm k)"
  shows "(\<not> truthy (cells ! i) \<or> getitem_key (cells ! i) ''v'' = Inr PNone
            \<longrightarrow> parse_cell B (cells ! i) col = Inr PNone)
       \<and> (\<not> truthy (cells ! i) \<longrightarrow> dict_lookup (results ! r) k = None)
       \<and> (truthy (cells ! i) \<and> getitem_key (cells ! i) ''v'' = Inr PNone
            \<longrightarrow> dict_lookup (results ! r) k = Some PNone)"
proof -
  from assms(1-7) have rows: "convert_rows B cols rows = Inr results"
    by (simp add: convert_query_result_def)
  have row: "convert_cells B cols cells 0 [] = Inr (results ! r)"
    by (rule convert_rows_nth [OF rows assms(8) assms(9)]) simp
  have skipped: "dict_lookup (results ! r) k = None" if "\<not> truthy (cells ! i)"
  proof -
    have "\<forall>j<length cells. truthy (cells ! j) \<longrightarrow>
           (\<forall>c k'. getitem_idx cols (0 + j) = Inr c \<longrightarrow> getitem_key c ''id'' = Inr k'
              \<longrightarrow> key_norm k' \<noteq> key_norm k)"
      using assms(13) that by auto
    from convert_cells_other_keys [OF row this] show ?thesis by simp
  qed
  have null: "dict_lookup (results ! r) k = Some PNone"
    if "truthy (cells ! i)" and "getitem_key (cells ! i) ''v'' = Inr PNone"
  proof -
    have "\<forall>j<length cells. i < j \<longrightarrow> truthy (cells ! j) \<longrightarrow>
           (\<forall>c k'. getitem_idx cols (0 + j) = Inr c \<longrightarrow> getitem_key c ''id'' = Inr k'
              \<longrightarrow> key_norm k' \<noteq> key_norm k)"
      using assms(13) by auto
    from convert_cells_null_value [OF row assms(10) that _ assms(12) this] assms(11)
    show ?thesis by simp
  qed
  show ?thesis
    using skipped null parse_cell_null [of "cells ! i" B col] by blast
qed

text \<open>The response with one row, whose cells are an object, null, and an object with
  a null value: column C holds null, column B has no entry.\<close>

theorem convert_query_result_null_cells_witness:
  "convert_query_result example_builtins response_one_row
     = Inr [[(PStr ''A'', PStr ''n1''), (PStr ''C'', PNone)]]
   \<and> dict_lookup ([[(PStr ''A'', PStr ''n1''), (PStr ''C'', PNone)]] ! 0) (PStr ''C'') = Some PNone
   \<and> dict_lookup ([[(PStr ''A'', PStr ''n1''), (PStr ''C'', PNone)]] ! 0) (PStr ''B'') = None"
proof -
  let ?cols = "PList [PDict [(''id'', PStr ''A''), (''type'', PStr ''string'')],
                      PDict [(''id'', PStr ''B''), (''type'', PStr ''number'')],
                      PDict [(''id'', PStr ''C''), (''type'', PStr ''number'')]]"
  let ?cells = "[PDict [(''v'', PStr ''n1'')], PNone, PDict [(''v'', PNone)]]"
  let ?rows = "[PDict [(''c'', PList ?cells)]]"
  let ?table = "PDict [(''cols'', ?cols), (''rows'', PList ?rows)]"
  let ?results = "[[(PStr ''A'', PStr ''n1''), (PStr ''C'', PNone)]]"
  note res = convert_one_row
  have i1: "py_index response_one_row (CHR ''{'') = Inr 8"
    by (simp add: response_one_row_def py_index_def)
  have i2: "py_rindex response_one_row (CHR ''}'') = Inr 152"
    by (simp add: response_one_row_def py_rindex_def)
  have js: "json_loads example_builtins (slice response_one_row 8 (152 + 1)) = Inr json_one_row"
    by (simp add: response_one_row_def example_builtins_def slice_def)
  have t: "getitem_key json_one_row ''table'' = Inr ?table"
    by (simp add: json_one_row_def)
  have c: "getitem_key ?table ''cols'' = Inr ?cols" by simp
  have rw: "getitem_key ?table ''rows'' = Inr (PList ?rows)" by simp
  have r0: "(0::nat) < length ?rows" by simp
  have cs: "getitem_key (?rows ! 0) ''c'' = Inr (PList ?cells)" by simp
  have d2: "\<forall>j<length ?cells. j \<noteq> 2 \<longrightarrow> truthy (?cells ! j) \<longrightarrow>
           (\<forall>c k'. getitem_idx ?cols j = Inr c \<longrightarrow> getitem_key c ''id'' = Inr k'
              \<longrightarrow> key_norm k' \<noteq> key_norm (PStr ''C''))"
    by (auto simp add: numeral_3_eq_3 All_less_Suc)
  have d1: "\<forall>j<length ?cells. j \<noteq> 1 \<longrightarrow> truthy (?cells ! j) \<longrightarrow>
           (\<forall>c k'. getitem_idx ?cols j = Inr c \<longrightarrow> getitem_key c ''id'' = Inr k'
              \<longrightarrow> key_norm k' \<noteq> key_norm (PStr ''B''))"
    by (auto simp add: numeral_3_eq_3 All_less_Suc)
  have "dict_lookup (?results ! 0) (PStr ''C'') = Some PNone"
    using convert_query_result_null_cells [OF res i1 i2 js t c rw r0 cs _ _ _ d2,
        of "PDict [(''id'', PStr ''C''), (''type'', PStr ''number'')]"]
    by simp
  moreover have "dict_lookup (?results ! 0) (PStr ''B'') = None"
    using convert_query_result_null_cells [OF res i1 i2 js t c rw r0 cs _ _ _ d1,
        of "PDict [(''id'', PStr ''B''), (''type'', PStr ''number'')]"]
    by simp
  ultimately show ?thesis using res by simp
qed

text \<open>In that response the cell of column B is null, and the decoded row has no entry
  under B: it does not hold null there.\<close>

theorem convert_query_result_null_cell_absent:
  "convert_query_result example_builtins response_one_row
     = Inr [[(PStr ''A'', PStr ''n1''), (PStr ''C'', PNone)]]
   \<and> dict_lookup [(PStr ''A'', PStr ''n1''), (PStr ''C'', PNone)] (PStr ''B'') = None"
  by (simp add: convert_query_result_def response_one_row_def example_builtins_def
      json_one_row_def py_index_def py_rindex_def slice_def parse_cell_def setitem_def)

text \<open>
  Claim C9. A query response whose table has no rows converts to the empty list;
  nothing is raised.
\<close>

theorem convert_query_result_no_rows:
  assumes "py_index response (CHR ''{'') = Inr start"
    and "py_rindex response (CHR ''}'') = Inr stop"
    and "json_loads B (slice response start (stop + 1)) = Inr resp"
    and "getitem_key resp ''table'' = Inr table"
    and "getitem_key table ''cols'' = Inr cols"
    and "getitem_key table ''rows'' = Inr (PList [])"
  shows "convert_query_result B response = Inr []"
  using assms by (simp add: convert_query_result_def)

theorem convert_query_result_no_rows_witness:
  "convert_query_result example_builtins response_no_rows = Inr []"
proof -
  have i1: "py_index response_no_rows (CHR ''{'') = Inr 8"
    by (simp add: response_no_rows_def py_index_def)
  have i2: "py_rindex response_no_rows (CHR ''}'') = Inr 64"
    by (simp add: response_no_rows_def py_rindex_def)
  have js: "json_loads example_builtins (slice response_no_rows 8 (64 + 1)) = Inr json_no_rows"
    by (simp add: response_no_rows_def example_builtins_def slice_def)
  have t: "getitem_key json_no_rows ''table'' = Inr (PDict
     [(''cols'', PList [PDict [(''id'', PStr ''A''), (''type'', PStr ''string'')]]),
      (''rows'', PList [])])"
    by (simp add: json_no_rows_def)
  show ?thesis
    by (rule convert_query_result_no_rows [OF i1 i2 js t]) simp_all
qed


section \<open>Batch updates\<close>

text \<open>What it is for an entry of the response list to give a result: the fields of
  the result are read off the entry.\<close>

lemma UpdateRowsResult_of_fields:
  "UpdateRowsResult_of A e = Inr u \<longleftrightarrow>
     (\<exists>a1_text d.
        getitem_key e ''updatedRange'' = Inr a1_text
      \<and> from_notation A a1_text = Inr (updated_range u)
      \<and> getitem_key e ''updatedRows'' = Inr (updated_rows u)
      \<and> getitem_key e ''updatedColumns'' = Inr (updated_columns u)
      \<and> getitem_key e ''updatedCells'' = Inr (updated_cells u)
      \<and> getitem_key e ''updatedData'' = Inr d
      \<and> dict_get d ''values'' (PList []) = Inr (updated_values u))"
  by (cases u) (auto simp: UpdateRowsResult_of_def and_then_eq_Inr)

text \<open>The loop appends one result per entry, in the order of the entries.\<close>

lemma collect_results_append:
  "collect_results A entries acc = Inr results \<Longrightarrow>
     \<exists>new. results = acc @ new \<and> length new = length entries \<and>
       (\<forall>i<length entries. UpdateRowsResult_of A (entries ! i) = Inr (new ! i))"
proof (induction entries arbitrary: acc results)
  case Nil
  then show ?case by simp
next
  case (Cons e entries)
  from Cons.prems obtain u where u: "UpdateRowsResult_of A e = Inr u"
    and run: "collect_results A entries (acc @ [u]) = Inr results"
    by (auto simp: and_then_eq_Inr)
  from Cons.IH [OF run] obtain new where new: "results = (acc @ [u]) @ new"
    "length new = length entries"
    "\<forall>i<length entries. UpdateRowsResult_of A (entries ! i) = Inr (new ! i)"
    by blast
  have "\<forall>i<length (e # entries). UpdateRowsResult_of A ((e # entries) ! i) = Inr ((u # new) ! i)"
    using u new(3) by (auto simp: nth_Cons split: nat.splits)
  with new(1,2) show ?case
    by (intro exI [of _ "u # new"]) simp
qed

text \<open>When every entry can be turned into a result, the loop returns.\<close>

lemma collect_results_total:
  "\<forall>e\<in>set entries. \<exists>u. UpdateRowsResult_of A e = Inr u \<Longrightarrow>
     \<exists>results. collect_results A entries acc = Inr results"
  by (induction entries arbitrary: acc) auto

text \<open>
  Claim C3, as the code has it. The requests go to the service in one
  \<^verbatim>\<open>values.batchUpdate\<close> call, their ranges and values in the order submitted.
  For every answer of the service whose response list has well-formed entries,
  \<^verbatim>\<open>batch_update_rows\<close> returns exactly one \<^verbatim>\<open>UpdateRowsResult\<close> per entry of
  that list, in the order of the list, the \<open>i\<close>-th holding the range, the counts and
  the values of the \<open>i\<close>-th entry. That is one result per request exactly when the
  service answers with one entry per request; the code does not compare the two.
\<close>

theorem batch_update_rows_per_entry:
  assumes "svc W ''values.batchUpdate''
             [(''spreadsheetId'', PStr sid),
              (''body'', PDict
                 [(''includeValuesInResponse'', PBool True),
                  (''responseValueRenderOption'', PStr ''FORMATTED_VALUE''),
                  (''valueInputOption'', PStr ''USER_ENTERED''),
                  (''data'', PList (map (\<lambda>req.
                      PDict [(''majorDimension'', PStr ''ROWS''),
                             (''range'', PStr (range_str A (req_range req))),
                             (''values'', req_values req)]) requests))])] w
           = (Inr resp, w')"
    and "getitem_key resp ''responses'' = Inr (PList entries)"
    and "\<forall>e\<in>set entries. \<exists>a1_text r n_rows n_cols n_cells d.
           getitem_key e ''updatedRange'' = Inr a1_text \<and> from_notation A a1_text = Inr r
         \<and> getitem_key e ''updatedRows'' = Inr n_rows
         \<and> getitem_key e ''updatedColumns'' = Inr n_cols
         \<and> getitem_key e ''updatedCells'' = Inr n_cells
         \<and> getitem_key e ''updatedData'' = Inr (PDict d)"
  shows "\<exists>results. batch_update_rows A W sid requests w = (Inr results, w')
           \<and> length results = length entries
           \<and> (\<forall>i<length entries.
                 and_then (getitem_key (entries ! i) ''updatedRange'') (from_notation A)
                   = Inr (updated_range (results ! i))
               \<and> getitem_key (entries ! i) ''updatedRows'' = Inr (updated_rows (results ! i))
               \<and> getitem_key (entries ! i) ''updatedColumns''
                   = Inr (updated_columns (results ! i))
               \<and> getitem_key (entries ! i) ''updatedCells'' = Inr (updated_cells (results ! i))
               \<and> and_then (getitem_key (entries ! i) ''updatedData'')
                     (\<lambda>d. dict_get d ''values'' (PList []))
                   = Inr (updated_values (results ! i)))"
proof -
  have wf: "\<forall>e\<in>set entries. \<exists>u. UpdateRowsResult_of A e = Inr u"
  proof
    fix e assume "e \<in> set entries"
    with assms(3) obtain a1_text r n_rows n_cols n_cells d where
      "getitem_key e ''updatedRange'' = Inr a1_text" "from_notation A a1_text = Inr r"
      "getitem_key e ''updatedRows'' = Inr n_rows" "getitem_key e ''updatedColumns'' = Inr n_cols"
      "getitem_key e ''updatedCells'' = Inr n_cells" "getitem_key e ''updatedData'' = Inr (PDict d)"
      by blast
    then show "\<exists>u. UpdateRowsResult_of A e = Inr u"
      by (simp add: UpdateRowsResult_of_def)
  qed
  from collect_results_total [OF wf] obtain results
    where run: "collect_results A entries [] = Inr results"
    by blast
  from collect_results_append [OF run]
  have len: "length results = length entries"
    and each: "\<forall>i<length entries. UpdateRowsResult_of A (entries ! i) = Inr (results ! i)"
    by auto
  have call: "batch_update_rows A W sid requests w = (Inr results, w')"
    using assms(1,2) run
    by (simp add: batch_update_rows_def batch_update_body_def MAJOR_DIMENSION_ROWS_def)
  have "\<forall>i<length entries.
                 and_then (getitem_key (entries ! i) ''updatedRange'') (from_notation A)
                   = Inr (updated_range (results ! i))
               \<and> getitem_key (entries ! i) ''updatedRows'' = Inr (updated_rows (results ! i))
               \<and> getitem_key (entries ! i) ''updatedColumns''
                   = Inr (updated_columns (results ! i))
               \<and> getitem_key (entries ! i) ''updatedCells'' = Inr (updated_cells (results ! i))
               \<and> and_then (getitem_key (entries ! i) ''updatedData'')
                     (\<lambda>d. dict_get d ''values'' (PList []))
                   = Inr (updated_values (results ! i))"
  proof (intro allI impI)
    fix i assume "i < length entries"
    with each have "UpdateRowsResult_of A (entries ! i) = Inr (results ! i)" by simp
    then show "and_then (getitem_key (entries ! i) ''updatedRange'') (from_notation A)
                   = Inr (updated_range (results ! i))
               \<and> getitem_key (entries ! i) ''updatedRows'' = Inr (updated_rows (results ! i))
               \<and> getitem_key (entries ! i) ''updatedColumns''
                   = Inr (updated_columns (results ! i))
               \<and> getitem_key (entries ! i) ''updatedCells'' = Inr (updated_cells (results ! i))
               \<and> and_then (getitem_key (entries ! i) ''updatedData'')
                     (\<lambda>d. dict_get d ''values'' (PList []))
                   = Inr (updated_values (results ! i))"
      by (auto simp: UpdateRowsResult_of_fields)
  qed
  with call len show ?thesis by blast
qed

text \<open>Two requests against the example service, which answers with two entries.\<close>

theorem batch_update_rows_per_entry_witness:
  "fst (batch_update_rows example_ranges example_wrapper ''sid'' example_requests [])
     = Inr [\<lparr>updated_range = ''Sheet1!A2:B2'', updated_rows = PInt 1, updated_columns = PInt 2,
             updated_cells = PInt 2, updated_values = PList [PList [PStr ''n1'', PStr ''10'']]\<rparr>,
            \<lparr>updated_range = ''Sheet1!A5'', updated_rows = PInt 1, updated_columns = PInt 1,
             updated_cells = PInt 1, updated_values = PList []\<rparr>]"
proof -
  let ?kwargs = "[(''spreadsheetId'', PStr ''sid''),
              (''body'', PDict
                 [(''includeValuesInResponse'', PBool True),
                  (''responseValueRenderOption'', PStr ''FORMATTED_VALUE''),
                  (''valueInputOption'', PStr ''USER_ENTERED''),
                  (''data'', PList (map (\<lambda>req.
                      PDict [(''majorDimension'', PStr ''ROWS''),
                             (''range'', PStr (range_str example_ranges (req_range req))),
                             (''values'', req_values req)]) example_requests))])]"
  have call: "svc example_wrapper ''values.batchUpdate'' ?kwargs []
           = (Inr (PDict [(''responses'', PList [entry1, entry2])]),
              [(''values.batchUpdate'', ?kwargs)])"
    by (simp add: example_wrapper_def example_service_def)
  have resp: "getitem_key (PDict [(''responses'', PList [entry1, entry2])]) ''responses''
                = Inr (PList [entry1, entry2])"
    by simp
  have ok: "\<forall>e\<in>set [entry1, entry2]. \<exists>a1_text r n_rows n_cols n_cells d.
           getitem_key e ''updatedRange'' = Inr a1_text
         \<and> from_notation example_ranges a1_text = Inr r
         \<and> getitem_key e ''updatedRows'' = Inr n_rows
         \<and> getitem_key e ''updatedColumns'' = Inr n_cols
         \<and> getitem_key e ''updatedCells'' = Inr n_cells
         \<and> getitem_key e ''updatedData'' = Inr (PDict d)"
    by (simp add: entry1_def entry2_def example_ranges_def)
  from batch_update_rows_per_entry [OF call resp ok] obtain results where
    r: "batch_update_rows example_ranges example_wrapper ''sid'' example_requests []
          = (Inr results, [(''values.batchUpdate'', ?kwargs)])"
      "length results = length [entry1, entry2]"
    by blast
  moreover have "fst (batch_update_rows example_ranges example_wrapper ''sid'' example_requests [])
     = Inr [\<lparr>updated_range = ''Sheet1!A2:B2'', updated_rows = PInt 1, updated_columns = PInt 2,
             updated_cells = PInt 2, updated_values = PList [PList [PStr ''n1'', PStr ''10'']]\<rparr>,
            \<lparr>updated_range = ''Sheet1!A5'', updated_rows = PInt 1, updated_columns = PInt 1,
             updated_cells = PInt 1, updated_values = PList []\<rparr>]"
    by (simp add: batch_update_rows_def example_wrapper_def example_service_def entry1_def
        entry2_def UpdateRowsResult_of_def example_ranges_def)
  ultimately show ?thesis by simp
qed

text \<open>One request against the same service, which still answers with two entries: two
  results come back for the one request.\<close>

theorem batch_update_rows_one_request_two_results:
  "length example_single_request = 1
   \<and> map_sum id length
        (fst (batch_update_rows example_ranges example_wrapper ''sid'' example_single_request []))
     = Inr 2"
  by (simp add: example_single_request_def batch_update_rows_def example_wrapper_def
      example_service_def entry1_def entry2_def UpdateRowsResult_of_def example_ranges_def)

section \<open>Sessions\<close>

text \<open>
  Claim C10. Constructing a \<^verbatim>\<open>GoogleSheetSession\<close> never raises on account of the
  sheet creation: whatever \<^verbatim>\<open>_ensure\<close> meets while it tries to create the sheet, it
  returns normally, and \<^verbatim>\<open>__init__\<close> returns the session with its spreadsheet id,
  sheet name and wrapper set.
\<close>

theorem session_init_never_raises:
  "fst (ensure B self w) = Inr ()
   \<and> fst (GoogleSheetSession_init B W sid name w)
       = Inr \<lparr>spreadsheet_id = sid, sheet_name = name, wrapper = W, scratchpad_name = Absent\<rparr>"
  by (simp add: GoogleSheetSession_init_def ensure_def split: prod.splits sum.splits attr.splits)

text \<open>The example service refuses \<^verbatim>\<open>batchUpdate\<close>, so creating a sheet raises.\<close>

lemma create_sheet_fails:
  "create_sheet example_builtins example_wrapper ''sid'' ''scratch'' []
     = (Inl (ServiceError ''batchUpdate''),
        [(''batchUpdate'', [(''spreadsheetId'', PStr ''sid''),
           (''body'', PDict [(''requests'', PDict [(''addSheet'',
              PDict [(''properties'', PDict [(''title'', PStr ''scratch'')])])])])])])"
  by (simp add: create_sheet_def example_wrapper_def example_service_def)

theorem session_init_never_raises_witness:
  "fst (create_sheet example_builtins example_wrapper ''sid'' ''scratch'' [])
     = Inl (ServiceError ''batchUpdate'')
   \<and> fst (ensure example_builtins (example_session\<lparr>scratchpad_name := Present ''scratch''\<rparr>) [])
     = Inr ()
   \<and> fst (GoogleSheetSession_init example_builtins example_wrapper ''sid'' ''Sheet1'' [])
     = Inr example_session"
  using session_init_never_raises [of example_builtins
      "example_session\<lparr>scratchpad_name := Present ''scratch''\<rparr>" "[]" example_wrapper
      "''sid''" "''Sheet1''"]
  by (simp add: create_sheet_fails example_session_def)

section \<open>Scratchpads\<close>

text \<open>What \<^verbatim>\<open>_book_scratchpad_cell\<close> does when it returns: it has overwritten with
  the sentinel, recorded the updated range on the instance, and returned \<^verbatim>\<open>None\<close>.\<close>

lemma book_scratchpad_cell_returns_None:
  "book_scratchpad_cell A self w = (Inr ret, self', w') \<Longrightarrow>
     ret = None \<and> own_wrapper self' = own_wrapper self
       \<and> own_spreadsheet_id self' = own_spreadsheet_id self
       \<and> session self' = session self
       \<and> (\<exists>a1 result. from_notation A (PStr (sheet_name (session self))) = Inr a1
             \<and> session_overwrite_rows A (session self) a1
                  (PList [PList [PStr SCRATCHPAD_BOOKED_VALUE]]) w = (Inr result, w')
             \<and> scratchpad_cell self' = Present (Some (ins_updated_range result)))"
  by (auto simp: book_scratchpad_cell_def split: sum.splits prod.splits)

lemma init_own_wrapper_Absent:
  "GoogleSheetScratchpad_init A s w = (Inr self, w') \<Longrightarrow> own_wrapper self = Absent"
  by (auto simp: GoogleSheetScratchpad_init_def Let_def split: sum.splits prod.splits
      dest!: book_scratchpad_cell_returns_None)

text \<open>Booking on the example session.\<close>

lemma example_booking:
  "GoogleSheetScratchpad_init example_ranges example_session []
     = (Inr example_scratchpad, booking_calls)"
  by (simp add: GoogleSheetScratchpad_init_def book_scratchpad_cell_def
      session_overwrite_rows_def overwrite_rows_def insert_rows_mode_def InsertRowsResult_of_def
      example_ranges_def example_session_def example_wrapper_def example_service_def
      append_response_def example_scratchpad_def booking_calls_def SCRATCHPAD_BOOKED_VALUE_def
      APPEND_MODE_OVERWRITE_def)

lemma example_overwrite:
  "session_overwrite_rows example_ranges example_session ''Sheet1''
       (PList [PList [PStr SCRATCHPAD_BOOKED_VALUE]]) []
     = (Inr \<lparr>ins_updated_range = ''Sheet1!A1'', ins_updated_rows = PInt 1,
            ins_updated_columns = PInt 1, ins_updated_cells = PInt 1,
            inserted_values = PList [PList [PStr ''BOOKED'']]\<rparr>, booking_calls)"
  by (simp add: session_overwrite_rows_def overwrite_rows_def insert_rows_mode_def
      InsertRowsResult_of_def example_ranges_def example_session_def example_wrapper_def
      example_service_def append_response_def booking_calls_def SCRATCHPAD_BOOKED_VALUE_def
      APPEND_MODE_OVERWRITE_def)

text \<open>
  Claim C5 says that after construction the recorded scratchpad cell is the updated
  range confirmed by the overwrite that wrote the sentinel. The code does the
  overwrite, but whenever construction succeeds the recorded cell is \<^verbatim>\<open>None\<close>:
  \<^verbatim>\<open>__init__\<close> assigns the return value of \<^verbatim>\<open>_book_scratchpad_cell\<close>, which has
  no \<^verbatim>\<open>return\<close>, over the range that method recorded.
\<close>

theorem booked_cell_is_None:
  assumes "GoogleSheetScratchpad_init A s w = (Inr self, w')"
  shows "scratchpad_cell self = Present None
     \<and> (\<exists>a1 result. from_notation A (PStr (sheet_name s)) = Inr a1
           \<and> session_overwrite_rows A s a1 (PList [PList [PStr SCRATCHPAD_BOOKED_VALUE]]) w
               = (Inr result, w')
           \<and> scratchpad_cell self \<noteq> Present (Some (ins_updated_range result)))"
  using assms
  by (auto simp: GoogleSheetScratchpad_init_def Let_def split: sum.splits prod.splits
      dest!: book_scratchpad_cell_returns_None)

text \<open>On the example session the overwrite confirms the range \<^verbatim>\<open>Sheet1!A1\<close>; the
  scratchpad records \<^verbatim>\<open>None\<close>.\<close>

theorem booked_cell_is_None_witness:
  "GoogleSheetScratchpad_init example_ranges example_session []
     = (Inr example_scratchpad, booking_calls)
   \<and> fst (session_overwrite_rows example_ranges example_session ''Sheet1''
            (PList [PList [PStr SCRATCHPAD_BOOKED_VALUE]]) [])
     = Inr \<lparr>ins_updated_range = ''Sheet1!A1'', ins_updated_rows = PInt 1,
            ins_updated_columns = PInt 1, ins_updated_cells = PInt 1,
            inserted_values = PList [PList [PStr ''BOOKED'']]\<rparr>
   \<and> scratchpad_cell example_scratchpad = Present None"
  using booked_cell_is_None [OF example_booking] example_booking example_overwrite by simp

text \<open>
  Claim C7 says that \<^verbatim>\<open>execute(formula)\<close> writes the formula into the booked cell
  by an update and returns the value echoed back. On every scratchpad that
  \<^verbatim>\<open>__init__\<close> has built, \<^verbatim>\<open>execute\<close> raises \<open>AttributeError\<close> for
  \<^verbatim>\<open>_wrapper\<close> instead, in any state of the service and without calling it.
\<close>

theorem execute_raises_AttributeError:
  assumes "GoogleSheetScratchpad_init A s w = (Inr self, w')"
  shows "execute A self formula w'' = (Inl (AttributeError ''_wrapper''), self, w'')"
  using init_own_wrapper_Absent [OF assms] by (simp add: execute_def)

theorem execute_raises_AttributeError_witness:
  "execute example_ranges example_scratchpad ''=SUM(1,2)'' booking_calls
     = (Inl (AttributeError ''_wrapper''), example_scratchpad, booking_calls)"
  using execute_raises_AttributeError [OF example_booking] by simp

text \<open>None of the lookups the wrapper makes on a response raises
  \<open>InvalidOperationError\<close>, so \<^verbatim>\<open>update_rows\<close> and \<^verbatim>\<open>execute\<close> raise it only
  if the service or \<^verbatim>\<open>A1Range.from_notation\<close> does.\<close>

lemma getitem_key_not_InvalidOperationError:
  "getitem_key x k \<noteq> Inl InvalidOperationError"
  by (cases x) (simp_all split: option.splits)

lemma getitem_idx_not_InvalidOperationError:
  "getitem_idx x i \<noteq> Inl InvalidOperationError"
  by (cases x) simp_all

lemma dict_get_not_InvalidOperationError:
  "dict_get x k d \<noteq> Inl InvalidOperationError"
  by (cases x) simp_all

lemma and_then_not_InvalidOperationError:
  "m \<noteq> Inl InvalidOperationError \<Longrightarrow> (\<And>x. f x \<noteq> Inl InvalidOperationError)
     \<Longrightarrow> and_then m f \<noteq> Inl InvalidOperationError"
  by (cases m) simp_all

lemma UpdateRowsResult_of_not_InvalidOperationError:
  assumes "\<forall>v. from_notation A v \<noteq> Inl InvalidOperationError"
  shows "UpdateRowsResult_of A resp \<noteq> Inl InvalidOperationError"
  unfolding UpdateRowsResult_of_def
  by (intro and_then_not_InvalidOperationError getitem_key_not_InvalidOperationError
      dict_get_not_InvalidOperationError assms [rule_format]) simp

lemma update_rows_not_InvalidOperationError:
  assumes "\<forall>m kw w0. fst (svc W m kw w0) \<noteq> Inl InvalidOperationError"
    and "\<forall>v. from_notation A v \<noteq> Inl InvalidOperationError"
  shows "fst (update_rows A W sid cell vals w) \<noteq> Inl InvalidOperationError"
proof -
  let ?kw = "[(''spreadsheetId'', PStr sid),
              (''range'', PStr (str_of_range A cell)),
              (''includeValuesInResponse'', PStr ''true''),
              (''responseValueRenderOption'', PStr ''FORMATTED_VALUE''),
              (''valueInputOption'', PStr ''USER_ENTERED''),
              (''body'', PDict [(''majorDimension'', PStr MAJOR_DIMENSION_ROWS),
                                (''range'', PStr (str_of_range A cell)),
                                (''values'', vals)])]"
  obtain r w1 where call: "svc W ''values.update'' ?kw w = (r, w1)"
    by (cases "svc W ''values.update'' ?kw w")
  from assms(1) [rule_format, of "''values.update''" ?kw w] call
  have r: "r \<noteq> Inl InvalidOperationError" by simp
  show ?thesis
  proof (cases r)
    case (Inl e)
    with r call show ?thesis by (simp add: update_rows_def)
  next
    case (Inr resp)
    with call UpdateRowsResult_of_not_InvalidOperationError [OF assms(2), of resp]
    show ?thesis by (simp add: update_rows_def)
  qed
qed

lemma execute_not_InvalidOperationError:
  assumes "\<forall>W. own_wrapper self = Present W \<longrightarrow>
             (\<forall>m kw w0. fst (svc W m kw w0) \<noteq> Inl InvalidOperationError)"
    and "\<forall>v. from_notation A v \<noteq> Inl InvalidOperationError"
  shows "fst (execute A self formula w) \<noteq> Inl InvalidOperationError"
proof (cases "own_wrapper self")
  case Absent
  then show ?thesis by (simp add: execute_def)
next
  case (Present W)
  note W = this
  show ?thesis
  proof (cases "own_spreadsheet_id self")
    case Absent
    with W show ?thesis by (simp add: execute_def)
  next
    case (Present sid)
    note sid = this
    show ?thesis
    proof (cases "scratchpad_cell self")
      case Absent
      with W sid show ?thesis by (simp add: execute_def)
    next
      case (Present cell)
      let ?vals = "PList [PList [PStr formula]]"
      obtain r w1 where run: "update_rows A W sid cell ?vals w = (r, w1)"
        by (cases "update_rows A W sid cell ?vals w")
      from assms(1) W have "\<forall>m kw w0. fst (svc W m kw w0) \<noteq> Inl InvalidOperationError"
        by simp
      from update_rows_not_InvalidOperationError [OF this assms(2), of sid cell ?vals w] run
      have r: "r \<noteq> Inl InvalidOperationError" by simp
      show ?thesis
      proof (cases r)
        case (Inl e)
        with r run W sid Present show ?thesis by (simp add: execute_def)
      next
        case (Inr result)
        have "and_then (getitem_idx (updated_values result) 0) (\<lambda>row. getitem_idx row 0)
                \<noteq> Inl InvalidOperationError"
          by (intro and_then_not_InvalidOperationError getitem_idx_not_InvalidOperationError)
        with Inr run W sid Present show ?thesis by (simp add: execute_def)
      qed
    qed
  qed
qed

text \<open>\<^verbatim>\<open>close()\<close> leaves the instance as it was, whether it raises or not.\<close>

lemma close_self: "fst (snd (close A self w)) = self"
  by (simp add: close_def split: attr.splits prod.splits)

text \<open>
  Claim C4, as the code has it. \<^verbatim>\<open>close()\<close> records nothing on the scratchpad: the
  instance is the same after it as before, and no released state exists. An
  \<^verbatim>\<open>execute(formula)\<close> after \<^verbatim>\<open>close()\<close> is therefore never rejected with
  \<open>InvalidOperationError\<close> by the scratchpad: it does not fail with that error unless
  the service or \<^verbatim>\<open>A1Range.from_notation\<close> raises it.
\<close>

theorem execute_after_close_not_rejected:
  assumes "\<forall>W. own_wrapper self = Present W \<longrightarrow>
             (\<forall>m kw w0. fst (svc W m kw w0) \<noteq> Inl InvalidOperationError)"
    and "\<forall>v. from_notation A v \<noteq> Inl InvalidOperationError"
  shows "fst (snd (close A self w)) = self
       \<and> fst (execute A (fst (snd (close A self w))) formula (snd (snd (close A self w))))
           \<noteq> Inl InvalidOperationError"
  using execute_not_InvalidOperationError [OF assms] by (simp add: close_self)

text \<open>On the scratchpad whose attributes are all set, over the service that answers:
  \<^verbatim>\<open>close()\<close> succeeds, and \<^verbatim>\<open>execute\<close> after it returns the value echoed
  back.\<close>

lemma wired_close:
  "close example_ranges wired_scratchpad []
     = (Inr (), wired_scratchpad,
        [(''values.batchClear'', [(''spreadsheetId'', PStr ''sid''),
            (''body'', PDict [(''ranges'', PList [PStr ''Sheet1!A1''])])])])"
  by (simp add: close_def clear_def wired_scratchpad_def answering_wrapper_def
      answering_service_def str_of_range_def example_ranges_def)

lemma wired_execute:
  "fst (execute example_ranges wired_scratchpad ''=1+2''
          [(''values.batchClear'', [(''spreadsheetId'', PStr ''sid''),
            (''body'', PDict [(''ranges'', PList [PStr ''Sheet1!A1''])])])])
     = Inr (PStr ''3'')"
  by (simp add: execute_def update_rows_def UpdateRowsResult_of_def wired_scratchpad_def
      answering_wrapper_def answering_service_def str_of_range_def example_ranges_def
      update_response_def)

theorem execute_after_close_not_rejected_witness:
  "fst (close example_ranges wired_scratchpad []) = Inr ()
   \<and> fst (snd (close example_ranges wired_scratchpad [])) = wired_scratchpad
   \<and> fst (execute example_ranges (fst (snd (close example_ranges wired_scratchpad []))) ''=1+2''
            (snd (snd (close example_ranges wired_scratchpad []))))
       = Inr (PStr ''3'')"
proof -
  have s: "\<forall>W. own_wrapper wired_scratchpad = Present W \<longrightarrow>
             (\<forall>m kw w0. fst (svc W m kw w0) \<noteq> Inl InvalidOperationError)"
    by (simp add: wired_scratchpad_def answering_wrapper_def answering_service_def)
  have n: "\<forall>v. from_notation example_ranges v \<noteq> Inl InvalidOperationError"
    by (simp add: example_ranges_def split: pyval.splits)
  from execute_after_close_not_rejected [OF s n, of "[]" "''=1+2''"] wired_close wired_execute
  show ?thesis by simp
qed

text \<open>The example scratchpad, closed and then executed: the error is not
  \<open>InvalidOperationError\<close>.\<close>

theorem execute_after_close_not_InvalidOperationError:
  "GoogleSheetScratchpad_init example_ranges example_session []
     = (Inr example_scratchpad, booking_calls)
   \<and> close example_ranges example_scratchpad booking_calls
     = (Inl (AttributeError ''_wrapper''), example_scratchpad, booking_calls)
   \<and> fst (execute example_ranges example_scratchpad ''=1+1'' booking_calls)
     = Inl (AttributeError ''_wrapper'')
   \<and> fst (execute example_ranges example_scratchpad ''=1+1'' booking_calls)
     \<noteq> Inl InvalidOperationError"
  by (simp add: example_booking close_def execute_def example_scratchpad_def)


end
